theory Spec2Isabelle
  imports Complex_Main
begin

section \<open>The LNURL-pay screen (src/app/screens/LNURLPay.tsx)\<close>

text \<open>
  The screen is a React function component. Its state (\<open>details\<close>, \<open>origin\<close>,
  \<open>valueMSat\<close>, \<open>loading\<close>) is a record; everything it does to the outside world
  (the HTTP request, the wallet call, dialogs, notifications, closing the window) is an
  event, and a run of a handler is the list of events it produces, in order. What the
  outside world answers (the callback's response, the verdict of
  \<open>lnurl.verifyInvoice\<close>, the wallet's result, the user's answer to
  \<open>window.confirm\<close>) is a parameter, the environment.

  Amounts are JavaScript numbers. A finite one is a rational number, and that is what
  an amount is here; no arithmetic is done on amounts in this theory, they are stored,
  compared and sent. (The slider hands its value over as a numeric string, which the
  request and the verification read as that number.) A thrown JavaScript error is a
  value carrying its \<open>message\<close>.
\<close>

subsection \<open>Data\<close>

type_synonym msat = rat

record lnurl_details =
  minSendable :: msat
  maxSendable :: msat
  callback :: string
  domain :: string
  metadata :: string

record request_origin =
  name :: string
  icon :: string
  external :: bool

text \<open>
  The payee's post-payment instruction. The fields other than \<open>tag\<close> are optional
  in the response; a missing one is \<open>undefined\<close> in the script.
\<close>

record successAction =
  tag :: string
  description :: "string option"
  url :: "string option"
  message :: "string option"
  ciphertext :: "string option"
  iv :: "string option"

text \<open>The body of the callback's response: \<open>pr\<close> and the optional \<open>successAction\<close>.\<close>

record paymentInfo =
  pr :: string
  successAction :: "successAction option"

text \<open>
  Modelled from the spec: the result of the wallet call \<open>utils.call("lnurlPay", ...)\<close>,
  whose declaration is not part of the screen. The screen reads one field of it,
  \<open>payment_error\<close>, and never looks at a preimage; the specification's data model
  speaks of a preimage or an error, so the preimage is a second optional field.
\<close>

record payment =
  payment_error :: "string option"
  preimage :: "string option"

datatype js_error = Error (emessage: string)

datatype event =
    SetLoading bool
  | AxiosGet string msat
  | VerifyInvoice paymentInfo string msat
  | Alert string
  | UtilsCallLnurlPay request_origin string
  | WindowConfirm string
  | WindowOpen "string option"
  | UtilsNotify string "string option"
  | WindowClose
  | ConsoleLog js_error
  | PreventDefault
  | MsgError string

text \<open>
  The environment: what \<open>axios.get\<close> resolves to (or rejects with) for a callback and
  an amount, what \<open>lnurl.verifyInvoice\<close> returns (or throws) for a response, the
  metadata and the amount, what the wallet call resolves to (or rejects with) for an
  origin and a payment request, and what the user answers to a \<open>window.confirm\<close>
  question.
\<close>

record env =
  axios_get :: "string \<Rightarrow> msat \<Rightarrow> js_error + paymentInfo"
  verifyInvoice :: "paymentInfo \<Rightarrow> string \<Rightarrow> msat \<Rightarrow> js_error + bool"
  utils_call :: "request_origin \<Rightarrow> string \<Rightarrow> js_error + payment"
  window_confirm :: "string \<Rightarrow> bool"

subsection \<open>JavaScript conversions\<close>

text \<open>A value placed in a template string or shown by \<open>alert\<close>: \<open>undefined\<close> prints as such.\<close>

definition js_string :: "string option \<Rightarrow> string" where
  "js_string s = (case s of None \<Rightarrow> ''undefined'' | Some x \<Rightarrow> x)"

text \<open>Truthiness of an optional string: \<open>undefined\<close> and the empty string are falsy.\<close>

definition truthy :: "string option \<Rightarrow> bool" where
  "truthy s = (case s of None \<Rightarrow> False | Some x \<Rightarrow> x \<noteq> [])"

subsection \<open>confirm\<close>

text \<open>The \<open>switch\<close> over \<open>successAction.tag\<close> (lines 102 to 125).\<close>

definition successAction_switch :: "env \<Rightarrow> successAction \<Rightarrow> event list" where
  "successAction_switch E a =
     (if tag a = ''url'' then
        [Alert (js_string (description a)),
         WindowConfirm (js_string (description a) @ '' Do you want to open: '' @ js_string (url a) @ ''?'')]
        @ (if window_confirm E
                (js_string (description a) @ '' Do you want to open: '' @ js_string (url a) @ ''?'')
           then [WindowOpen (url a)] else [])
      else if tag a = ''message'' then
        [UtilsNotify ''LNURL response:'' (message a)]
      else
        [Alert (''Not implemented yet. Please submit an issue to support success action: '' @ tag a)])"

text \<open>The \<open>catch\<close> block followed by \<open>finally\<close>, and \<open>finally\<close> alone.\<close>

definition finally_block :: "event list" where
  "finally_block = [SetLoading False]"

definition catch_block :: "js_error \<Rightarrow> event list" where
  "catch_block e = [ConsoleLog e, Alert (''Error: '' @ emessage e)] @ finally_block"

text \<open>
  \<open>confirm\<close> is an \<open>async\<close> function with two suspension points, the \<open>await\<close> of
  the callback request and the \<open>await\<close> of the wallet call. It is cut there into three
  parts: up to the first \<open>await\<close>, from the settled request up to the second
  \<open>await\<close> (or to the end), and from the settled wallet call to the end.
  The second part returns, beside its events, the wallet call it is suspended on
  (the origin and payment request sent, and the success action kept for later), if any.
\<close>

definition confirm_begin :: "lnurl_details \<Rightarrow> msat \<Rightarrow> event list" where
  "confirm_begin d v = [SetLoading True, AxiosGet (callback d) v]"

definition confirm_fetched ::
  "env \<Rightarrow> lnurl_details \<Rightarrow> request_origin \<Rightarrow> msat \<Rightarrow> js_error + paymentInfo
     \<Rightarrow> event list \<times> (request_origin \<times> string \<times> successAction option) option" where
  "confirm_fetched E d og v r =
     (case r of
        Inl e \<Rightarrow> (catch_block e, None)
      | Inr info \<Rightarrow>
          (case verifyInvoice E info (metadata d) v of
             Inl e \<Rightarrow> (VerifyInvoice info (metadata d) v # catch_block e, None)
           | Inr ok \<Rightarrow>
               if \<not> ok then
                 (VerifyInvoice info (metadata d) v
                    # Alert ''Payment aborted. Invalid invoice'' # finally_block, None)
               else
                 ([VerifyInvoice info (metadata d) v, UtilsCallLnurlPay og (pr info)],
                  Some (og, pr info, successAction info))))"

definition confirm_paid :: "env \<Rightarrow> successAction option \<Rightarrow> js_error + payment \<Rightarrow> event list" where
  "confirm_paid E sa r =
     (case r of
        Inl e \<Rightarrow> catch_block e
      | Inr p \<Rightarrow>
          (case sa of
             None \<Rightarrow> []
           | Some a \<Rightarrow> if \<not> truthy (payment_error p) then successAction_switch E a else [])
          @ [WindowClose] @ finally_block)"

text \<open>One whole run of \<open>confirm\<close>, with nothing else happening in between.\<close>

definition confirm :: "env \<Rightarrow> lnurl_details \<Rightarrow> request_origin \<Rightarrow> msat \<Rightarrow> event list" where
  "confirm E d og v =
     confirm_begin d v @
     (case confirm_fetched E d og v (axios_get E (callback d) v) of
        (evs, None) \<Rightarrow> evs
      | (evs, Some (og', req, sa)) \<Rightarrow> evs @ confirm_paid E sa (utils_call E og' req))"

subsection \<open>reject\<close>

definition reject :: "event list" where
  "reject = [PreventDefault, MsgError ''User rejected'']"

subsection \<open>The component: state, rendering guards, and handlers as steps\<close>

text \<open>
  An invocation of \<open>confirm\<close> that is suspended at an \<open>await\<close> keeps the values its
  closure captured when it was called: the details, the origin and the amount.
\<close>

datatype task =
    AwaitInvoice lnurl_details request_origin msat
  | AwaitPayment request_origin string "successAction option"
  | Finished

record session =
  details :: "lnurl_details option"
  origin :: "request_origin option"
  valueMSat :: msat
  loading :: bool
  tasks :: "task list"
  trace :: "event list"

text \<open>
  The \<open>useState\<close> initialisers (lines 28 to 33): the amount starts at
  \<open>details?.minSendable || 0\<close>, computed once, from the props.
\<close>

definition LNURLPay :: "lnurl_details option \<Rightarrow> request_origin option \<Rightarrow> session" where
  "LNURLPay pd po =
     \<lparr>details = pd, origin = po,
      valueMSat = (case pd of None \<Rightarrow> 0 | Some d \<Rightarrow> if minSendable d \<noteq> 0 then minSendable d else 0),
      loading = False, tasks = [], trace = []\<rparr>"

text \<open>Appending events to the trace; a \<open>setLoading\<close> among them updates the flag.\<close>

fun set_loading :: "bool \<Rightarrow> event \<Rightarrow> bool" where
  "set_loading b (SetLoading x) = x"
| "set_loading b _ = b"

definition emit :: "event list \<Rightarrow> session \<Rightarrow> session" where
  "emit evs s = s\<lparr>loading := foldl set_loading (loading s) evs, trace := trace s @ evs\<rparr>"

text \<open>
  What can happen to the component:
  \<^item> \<open>LightningData\<close>: the lookup started by the effect hook, when neither details nor
    origin were passed in, delivers both (lines 35 to 65);
  \<^item> \<open>ChangeNumber x\<close>: the number field's handler runs, and the product
    \<open>e.target.value * 1000\<close> that it stores comes out as the number \<open>x\<close> (line 153);
    the product is computed in floating point, so its outcome is given, not derived from
    the entry;
  \<^item> \<open>ChangeRange x\<close>: the slider's handler runs and stores the slider's value, which
    reads as the number \<open>x\<close> (line 162);
  \<^item> \<open>OnClickConfirm\<close>: the Confirm button calls its \<open>onClick\<close>, that is \<open>confirm()\<close>;
  \<^item> \<open>FetchSettled i\<close>, \<open>PaySettled i\<close>: the request, or the wallet call, that the
    \<open>i\<close>-th invocation of \<open>confirm\<close> is waiting for settles;
  \<^item> \<open>OnClickReject\<close>: the Cancel link calls \<open>reject\<close>.
\<close>

datatype input =
    LightningData lnurl_details request_origin
  | ChangeNumber msat
  | ChangeRange msat
  | OnClickConfirm
  | FetchSettled nat
  | PaySettled nat
  | OnClickReject

text \<open>
  The screen proper, with its fields, button and link, is rendered only when details
  and origin are both there (line 169). \<open>window.close()\<close> is an event like the others:
  the code has no guard of its own that stops anything after it, so what is pending
  still settles and runs on.
\<close>

definition shown :: "session \<Rightarrow> (lnurl_details \<times> request_origin) option" where
  "shown s =
     (case details s of
        None \<Rightarrow> None
      | Some d \<Rightarrow> (case origin s of None \<Rightarrow> None | Some og \<Rightarrow> Some (d, og)))"

fun step :: "env \<Rightarrow> session \<Rightarrow> input \<Rightarrow> session" where
  "step E s (LightningData d og) =
     (if details s = None \<and> origin s = None
      then s\<lparr>details := Some d, origin := Some og\<rparr> else s)"
| "step E s (ChangeNumber x) =
     (case shown s of
        None \<Rightarrow> s
      | Some (d, og) \<Rightarrow>
          if minSendable d = maxSendable d then s else s\<lparr>valueMSat := x\<rparr>)"
| "step E s (ChangeRange x) =
     (case shown s of
        None \<Rightarrow> s
      | Some (d, og) \<Rightarrow>
          if minSendable d = maxSendable d then s else s\<lparr>valueMSat := x\<rparr>)"
| "step E s OnClickConfirm =
     (case shown s of
        None \<Rightarrow> s
      | Some (d, og) \<Rightarrow>
          emit (confirm_begin d (valueMSat s))
            (s\<lparr>tasks := tasks s @ [AwaitInvoice d og (valueMSat s)]\<rparr>))"
| "step E s (FetchSettled i) =
     (if length (tasks s) \<le> i then s
      else case tasks s ! i of
             AwaitInvoice d og v \<Rightarrow>
               (case confirm_fetched E d og v (axios_get E (callback d) v) of
                  (evs, None) \<Rightarrow> emit evs (s\<lparr>tasks := (tasks s)[i := Finished]\<rparr>)
                | (evs, Some (og', req, sa)) \<Rightarrow>
                    emit evs (s\<lparr>tasks := (tasks s)[i := AwaitPayment og' req sa]\<rparr>))
           | _ \<Rightarrow> s)"
| "step E s (PaySettled i) =
     (if length (tasks s) \<le> i then s
      else case tasks s ! i of
             AwaitPayment og req sa \<Rightarrow>
               emit (confirm_paid E sa (utils_call E og req))
                 (s\<lparr>tasks := (tasks s)[i := Finished]\<rparr>)
           | _ \<Rightarrow> s)"
| "step E s OnClickReject =
     (case shown s of None \<Rightarrow> s | Some (d, og) \<Rightarrow> emit reject s)"

definition run :: "env \<Rightarrow> session \<Rightarrow> input list \<Rightarrow> session" where
  "run E s ins = foldl (step E) s ins"

subsection \<open>Classifying events\<close>

fun is_fetch :: "event \<Rightarrow> bool" where
  "is_fetch (AxiosGet c v) = True"
| "is_fetch _ = False"

fun is_wallet_call :: "event \<Rightarrow> bool" where
  "is_wallet_call (UtilsCallLnurlPay og req) = True"
| "is_wallet_call _ = False"

fun is_alert :: "event \<Rightarrow> bool" where
  "is_alert (Alert m) = True"
| "is_alert _ = False"

text \<open>
  The events only the success-action \<open>switch\<close> can produce: the confirmation
  question, opening a URL, the notification. (It also uses \<open>alert\<close>, as the error
  paths do.)
\<close>

fun is_success_action :: "event \<Rightarrow> bool" where
  "is_success_action (WindowConfirm q) = True"
| "is_success_action (WindowOpen u) = True"
| "is_success_action (UtilsNotify t m) = True"
| "is_success_action _ = False"

subsection \<open>A sample session\<close>

definition sample_details :: lnurl_details where
  "sample_details =
     \<lparr>minSendable = 1000, maxSendable = 100000, callback = ''https://pay.example/cb'',
      domain = ''pay.example'', metadata = ''[[text/plain,coffee]]''\<rparr>"

definition sample_origin :: request_origin where
  "sample_origin = \<lparr>name = ''Shop'', icon = ''shop.png'', external = False\<rparr>"

definition sample_action :: "string \<Rightarrow> successAction" where
  "sample_action t =
     \<lparr>tag = t, description = Some ''Receipt'', url = Some ''https://pay.example/r'',
      message = Some ''Thanks'', ciphertext = Some ''c2VjcmV0'', iv = Some ''aXY=''\<rparr>"

definition sample_info :: "successAction option \<Rightarrow> paymentInfo" where
  "sample_info a = \<lparr>pr = ''lnbc50n1sample'', successAction = a\<rparr>"

definition paid :: payment where
  "paid = \<lparr>payment_error = None, preimage = Some ''00ff''\<rparr>"

definition unpaid :: payment where
  "unpaid = \<lparr>payment_error = Some ''no_route'', preimage = None\<rparr>"


text \<open>An environment that gives the same answers whatever it is asked.\<close>

definition fixed_env ::
  "js_error + paymentInfo \<Rightarrow> js_error + bool \<Rightarrow> js_error + payment \<Rightarrow> bool \<Rightarrow> env" where
  "fixed_env f v p a =
     \<lparr>axios_get = (\<lambda>c m. f), verifyInvoice = (\<lambda>i md m. v), utils_call = (\<lambda>og req. p),
      window_confirm = (\<lambda>q. a)\<rparr>"

subsection \<open>Observers of a run\<close>

text \<open>
  The result the wallet call of a run returns, if the run gets that far and the call
  does not throw; the success action of the fetched response; and the events of a run
  up to and including the wallet call.
\<close>

definition wallet_result :: "env \<Rightarrow> lnurl_details \<Rightarrow> request_origin \<Rightarrow> msat \<Rightarrow> payment option" where
  "wallet_result E d og v =
     (case axios_get E (callback d) v of
        Inl e \<Rightarrow> None
      | Inr info \<Rightarrow>
          (case verifyInvoice E info (metadata d) v of
             Inl e \<Rightarrow> None
           | Inr ok \<Rightarrow>
               if ok then (case utils_call E og (pr info) of Inl e \<Rightarrow> None | Inr p \<Rightarrow> Some p)
               else None))"

definition fetched_action :: "env \<Rightarrow> lnurl_details \<Rightarrow> msat \<Rightarrow> successAction option" where
  "fetched_action E d v =
     (case axios_get E (callback d) v of Inl e \<Rightarrow> None | Inr info \<Rightarrow> successAction info)"

definition paid_prefix :: "env \<Rightarrow> lnurl_details \<Rightarrow> request_origin \<Rightarrow> msat \<Rightarrow> event list" where
  "paid_prefix E d og v =
     (case axios_get E (callback d) v of
        Inl e \<Rightarrow> []
      | Inr info \<Rightarrow>
          [SetLoading True, AxiosGet (callback d) v, VerifyInvoice info (metadata d) v,
           UtilsCallLnurlPay og (pr info)])"

text \<open>What holds of a session as long as \<open>confirm\<close> was never called.\<close>

definition no_confirm_inv :: "session \<Rightarrow> bool" where
  "no_confirm_inv s =
     (tasks s = [] \<and> set (trace s) \<subseteq> {PreventDefault, MsgError ''User rejected''})"

section \<open>Properties\<close>

subsection \<open>The shape of a run of confirm\<close>

lemmas confirm_defs = confirm_def confirm_begin_def confirm_fetched_def confirm_paid_def
  catch_block_def finally_block_def

lemmas sample_defs = fixed_env_def sample_details_def sample_origin_def sample_info_def
  sample_action_def paid_def unpaid_def

lemma confirm_wallet_returned:
  assumes "wallet_result E d og v = Some p"
  shows "confirm E d og v =
           paid_prefix E d og v
           @ (case fetched_action E d v of
                None \<Rightarrow> []
              | Some a \<Rightarrow> if truthy (payment_error p) then [] else successAction_switch E a)
           @ [WindowClose, SetLoading False]"
  using assms
  by (auto simp: wallet_result_def fetched_action_def paid_prefix_def confirm_defs
           split: sum.splits if_splits option.splits)




lemma paid_prefix_no_open: "WindowOpen u \<notin> set (paid_prefix E d og v)"
  by (simp add: paid_prefix_def split: sum.splits)



subsection \<open>Verification gates payment\<close>

text \<open>
  Claim C1. In every run of \<open>confirm\<close> whose invoice verification fails, by returning
  false or by throwing, the run ends before the wallet call: the trace is the request,
  the verification, an alert that tells the user, and the reset of the loading flag;
  it holds no wallet call and no success-action event. Conversely a run that holds a
  wallet call has a verification that returned true, and the verification comes before
  the call in the trace.
\<close>

theorem C1_failed_verification_aborts:
  assumes "axios_get E (callback d) v = Inr info"
  shows "(verifyInvoice E info (metadata d) v = Inr False \<longrightarrow>
            confirm E d og v =
              [SetLoading True, AxiosGet (callback d) v, VerifyInvoice info (metadata d) v,
               Alert ''Payment aborted. Invalid invoice'', SetLoading False])
       \<and> (\<forall>e. verifyInvoice E info (metadata d) v = Inl e \<longrightarrow>
            confirm E d og v =
              [SetLoading True, AxiosGet (callback d) v, VerifyInvoice info (metadata d) v,
               ConsoleLog e, Alert (''Error: '' @ emessage e), SetLoading False])
       \<and> (verifyInvoice E info (metadata d) v \<noteq> Inr True \<longrightarrow>
            \<not> list_ex is_wallet_call (confirm E d og v)
            \<and> \<not> list_ex is_success_action (confirm E d og v)
            \<and> list_ex is_alert (confirm E d og v))
       \<and> (list_ex is_wallet_call (confirm E d og v) \<longrightarrow>
            verifyInvoice E info (metadata d) v = Inr True
            \<and> (\<exists>post. confirm E d og v =
                  [SetLoading True, AxiosGet (callback d) v, VerifyInvoice info (metadata d) v,
                   UtilsCallLnurlPay og (pr info)] @ post))"
  using assms
  by (cases "verifyInvoice E info (metadata d) v")
     (auto simp: confirm_defs split: sum.splits bool.splits)

text \<open>
  The specification's scenario B: bounds 1000 and 100000, amount 5000, an invoice that
  does not verify. No wallet call is made.
\<close>

theorem C1_failed_verification_aborts_witness:
  "axios_get (fixed_env (Inr (sample_info None)) (Inr False) (Inr paid) False)
       (callback sample_details) 5000 = Inr (sample_info None)
   \<and> confirm (fixed_env (Inr (sample_info None)) (Inr False) (Inr paid) False)
       sample_details sample_origin 5000 =
       [SetLoading True, AxiosGet ''https://pay.example/cb'' 5000,
        VerifyInvoice (sample_info None) ''[[text/plain,coffee]]'' 5000,
        Alert ''Payment aborted. Invalid invoice'', SetLoading False]
   \<and> \<not> list_ex is_wallet_call
         (confirm (fixed_env (Inr (sample_info None)) (Inr False) (Inr paid) False)
            sample_details sample_origin 5000)
   \<and> list_ex is_wallet_call
         (confirm (fixed_env (Inr (sample_info None)) (Inr True) (Inr paid) False)
            sample_details sample_origin 5000)
   \<and> verifyInvoice (fixed_env (Inr (sample_info None)) (Inr True) (Inr paid) False)
         (sample_info None) (metadata sample_details) 5000 = Inr True"
proof -
  have h: "axios_get (fixed_env (Inr (sample_info None)) (Inr False) (Inr paid) False)
             (callback sample_details) 5000 = Inr (sample_info None)"
    by (simp add: fixed_env_def)
  have k: "axios_get (fixed_env (Inr (sample_info None)) (Inr True) (Inr paid) False)
             (callback sample_details) 5000 = Inr (sample_info None)"
    by (simp add: fixed_env_def)
  have c: "list_ex is_wallet_call
             (confirm (fixed_env (Inr (sample_info None)) (Inr True) (Inr paid) False)
                sample_details sample_origin 5000)"
    by (simp add: confirm_defs fixed_env_def)
  show ?thesis
    using h c C1_failed_verification_aborts [OF h, of sample_origin]
      C1_failed_verification_aborts [OF k, of sample_origin]
    by (simp add: fixed_env_def sample_details_def)
qed

subsection \<open>Concurrent invocations of confirm\<close>

text \<open>
  Claim C2, as stated, fails. \<open>confirm\<close> never reads the loading flag. Two
  invocations, the second made while the first waits for its invoice (the loading flag
  is \<open>True\<close> then), give two requests to the callback, and, once both invoices have
  arrived and verified, two wallet calls.
\<close>

theorem C2_second_confirm_counterexample:
  "loading (step (fixed_env (Inr (sample_info None)) (Inr True) (Inr paid) False)
              (LNURLPay (Some sample_details) (Some sample_origin)) OnClickConfirm)
   \<and> length (filter is_fetch (trace
         (run (fixed_env (Inr (sample_info None)) (Inr True) (Inr paid) False)
            (LNURLPay (Some sample_details) (Some sample_origin))
            [OnClickConfirm, OnClickConfirm, FetchSettled 0, FetchSettled 1]))) = 2
   \<and> length (filter is_wallet_call (trace
         (run (fixed_env (Inr (sample_info None)) (Inr True) (Inr paid) False)
            (LNURLPay (Some sample_details) (Some sample_origin))
            [OnClickConfirm, OnClickConfirm, FetchSettled 0, FetchSettled 1]))) = 2"
  by (simp add: run_def LNURLPay_def shown_def emit_def confirm_defs sample_defs)

lemma run_append: "run E s (xs @ ys) = run E (run E s xs) ys"
  by (simp add: run_def)

lemma step_confirm:
  assumes "shown s = Some (d, og)"
  shows "shown (step E s OnClickConfirm) = Some (d, og)"
    and "valueMSat (step E s OnClickConfirm) = valueMSat s"
    and "tasks (step E s OnClickConfirm) = tasks s @ [AwaitInvoice d og (valueMSat s)]"
    and "trace (step E s OnClickConfirm)
           = trace s @ [SetLoading True, AxiosGet (callback d) (valueMSat s)]"
  using assms
  by (auto simp: shown_def emit_def confirm_begin_def split: option.splits)

lemma run_confirms:
  assumes "shown s = Some (d, og)"
  shows "tasks (run E s (replicate k OnClickConfirm))
           = tasks s @ replicate k (AwaitInvoice d og (valueMSat s))
       \<and> length (filter is_fetch (trace (run E s (replicate k OnClickConfirm))))
           = length (filter is_fetch (trace s)) + k
       \<and> filter is_wallet_call (trace (run E s (replicate k OnClickConfirm)))
           = filter is_wallet_call (trace s)"
  using assms
proof (induction k arbitrary: s)
  case 0
  then show ?case by (simp add: run_def)
next
  case (Suc k)
  define s1 where "s1 = step E s OnClickConfirm"
  have st: "shown s1 = Some (d, og)" "valueMSat s1 = valueMSat s"
           "tasks s1 = tasks s @ [AwaitInvoice d og (valueMSat s)]"
           "trace s1 = trace s @ [SetLoading True, AxiosGet (callback d) (valueMSat s)]"
    unfolding s1_def by (rule step_confirm [OF Suc.prems])+
  have unfold: "run E s (replicate (Suc k) OnClickConfirm)
                  = run E s1 (replicate k OnClickConfirm)"
    by (simp add: run_def s1_def)
  show ?case
    unfolding unfold using Suc.IH [OF st(1)] by (simp add: st(2-4))
qed

lemma step_fetch_verified:
  assumes "i < length (tasks s)" and "tasks s ! i = AwaitInvoice d og v"
      and "axios_get E (callback d) v = Inr info"
      and "verifyInvoice E info (metadata d) v = Inr True"
  shows "tasks (step E s (FetchSettled i))
           = (tasks s)[i := AwaitPayment og (pr info) (successAction info)]"
    and "trace (step E s (FetchSettled i))
           = trace s @ [VerifyInvoice info (metadata d) v, UtilsCallLnurlPay og (pr info)]"
  using assms by (simp_all add: confirm_fetched_def emit_def)

lemma run_fetches_verified:
  assumes "\<forall>i \<in> set js. i < length (tasks s) \<and> tasks s ! i = AwaitInvoice d og v"
      and "distinct js"
      and "axios_get E (callback d) v = Inr info"
      and "verifyInvoice E info (metadata d) v = Inr True"
  shows "length (filter is_wallet_call (trace (run E s (map FetchSettled js))))
           = length (filter is_wallet_call (trace s)) + length js
       \<and> filter is_fetch (trace (run E s (map FetchSettled js))) = filter is_fetch (trace s)"
  using assms(1,2)
proof (induction js arbitrary: s)
  case Nil
  then show ?case by (simp add: run_def)
next
  case (Cons j js)
  have j: "j < length (tasks s)" "tasks s ! j = AwaitInvoice d og v"
    using Cons.prems(1) by simp_all
  define s1 where "s1 = step E s (FetchSettled j)"
  have st: "tasks s1 = (tasks s)[j := AwaitPayment og (pr info) (successAction info)]"
           "trace s1 = trace s @ [VerifyInvoice info (metadata d) v, UtilsCallLnurlPay og (pr info)]"
    unfolding s1_def by (rule step_fetch_verified [OF j assms(3,4)])+
  have rest: "\<forall>i \<in> set js. i < length (tasks s1) \<and> tasks s1 ! i = AwaitInvoice d og v"
  proof
    fix i assume i: "i \<in> set js"
    then have "i \<noteq> j"
      using Cons.prems(2) by auto
    then show "i < length (tasks s1) \<and> tasks s1 ! i = AwaitInvoice d og v"
      using Cons.prems(1) i by (simp add: st(1))
  qed
  have unfold: "run E s (map FetchSettled (j # js)) = run E s1 (map FetchSettled js)"
    by (simp add: run_def s1_def)
  show ?case
    unfolding unfold using Cons.IH [OF rest] Cons.prems(2) by (simp add: st(2))
qed

text \<open>
  Claim C2, amended. An invocation of \<open>confirm\<close> is never rejected or ignored: from any
  state in which the screen is shown, whatever the loading flag and whatever is pending,
  \<open>k\<close> invocations in a row issue \<open>k\<close> requests to the callback; and when the
  invoices arrive and verify, each of the \<open>k\<close> invocations makes its own wallet call.
\<close>

theorem C2_every_confirm_fetches_and_pays:
  assumes "shown s = Some (d, og)"
  shows "length (filter is_fetch (trace (run E s (replicate k OnClickConfirm))))
           = length (filter is_fetch (trace s)) + k
       \<and> (axios_get E (callback d) (valueMSat s) = Inr info
            \<and> verifyInvoice E info (metadata d) (valueMSat s) = Inr True \<longrightarrow>
          length (filter is_fetch (trace
              (run E s (replicate k OnClickConfirm
                          @ map FetchSettled [length (tasks s) ..< length (tasks s) + k]))))
            = length (filter is_fetch (trace s)) + k
          \<and> length (filter is_wallet_call (trace
              (run E s (replicate k OnClickConfirm
                          @ map FetchSettled [length (tasks s) ..< length (tasks s) + k]))))
            = length (filter is_wallet_call (trace s)) + k)"
proof (intro conjI impI)
  note c = run_confirms [OF assms, of E k]
  show "length (filter is_fetch (trace (run E s (replicate k OnClickConfirm))))
          = length (filter is_fetch (trace s)) + k"
    using c by simp
  assume env: "axios_get E (callback d) (valueMSat s) = Inr info
                 \<and> verifyInvoice E info (metadata d) (valueMSat s) = Inr True"
  have pending: "\<forall>i \<in> set [length (tasks s) ..< length (tasks s) + k].
                   i < length (tasks (run E s (replicate k OnClickConfirm)))
                   \<and> tasks (run E s (replicate k OnClickConfirm)) ! i
                       = AwaitInvoice d og (valueMSat s)"
    using c by (auto simp: nth_append)
  note f = run_fetches_verified [OF pending distinct_upt conjunct1 [OF env] conjunct2 [OF env]]
  show "length (filter is_fetch (trace
            (run E s (replicate k OnClickConfirm
                        @ map FetchSettled [length (tasks s) ..< length (tasks s) + k]))))
          = length (filter is_fetch (trace s)) + k"
    using f c by (simp add: run_append)
  show "length (filter is_wallet_call (trace
            (run E s (replicate k OnClickConfirm
                        @ map FetchSettled [length (tasks s) ..< length (tasks s) + k]))))
          = length (filter is_wallet_call (trace s)) + k"
    using f c by (simp add: run_append)
qed

theorem C2_every_confirm_fetches_and_pays_witness:
  "shown (LNURLPay (Some sample_details) (Some sample_origin)) = Some (sample_details, sample_origin)
   \<and> length (filter is_fetch (trace
         (run (fixed_env (Inr (sample_info None)) (Inr True) (Inr paid) False)
            (LNURLPay (Some sample_details) (Some sample_origin))
            (replicate 3 OnClickConfirm @ map FetchSettled [0 ..< 3])))) = 3
   \<and> length (filter is_wallet_call (trace
         (run (fixed_env (Inr (sample_info None)) (Inr True) (Inr paid) False)
            (LNURLPay (Some sample_details) (Some sample_origin))
            (replicate 3 OnClickConfirm @ map FetchSettled [0 ..< 3])))) = 3"
proof -
  have h: "shown (LNURLPay (Some sample_details) (Some sample_origin))
             = Some (sample_details, sample_origin)"
    by (simp add: shown_def LNURLPay_def)
  have e: "axios_get (fixed_env (Inr (sample_info None)) (Inr True) (Inr paid) False)
             (callback sample_details)
             (valueMSat (LNURLPay (Some sample_details) (Some sample_origin)))
             = Inr (sample_info None)
           \<and> verifyInvoice (fixed_env (Inr (sample_info None)) (Inr True) (Inr paid) False)
               (sample_info None) (metadata sample_details)
               (valueMSat (LNURLPay (Some sample_details) (Some sample_origin))) = Inr True"
    by (simp add: fixed_env_def)
  have t: "tasks (LNURLPay (Some sample_details) (Some sample_origin)) = []"
          "trace (LNURLPay (Some sample_details) (Some sample_origin)) = []"
    by (simp_all add: LNURLPay_def)
  from C2_every_confirm_fetches_and_pays
         [OF h, of "fixed_env (Inr (sample_info None)) (Inr True) (Inr paid) False" 3
            "sample_info None"] e
  have "length (filter is_fetch (trace
         (run (fixed_env (Inr (sample_info None)) (Inr True) (Inr paid) False)
            (LNURLPay (Some sample_details) (Some sample_origin))
            (replicate 3 OnClickConfirm @ map FetchSettled
               [length (tasks (LNURLPay (Some sample_details) (Some sample_origin)))
                  ..< length (tasks (LNURLPay (Some sample_details) (Some sample_origin))) + 3]))))
          = length (filter is_fetch (trace (LNURLPay (Some sample_details) (Some sample_origin)))) + 3
        \<and> length (filter is_wallet_call (trace
         (run (fixed_env (Inr (sample_info None)) (Inr True) (Inr paid) False)
            (LNURLPay (Some sample_details) (Some sample_origin))
            (replicate 3 OnClickConfirm @ map FetchSettled
               [length (tasks (LNURLPay (Some sample_details) (Some sample_origin)))
                  ..< length (tasks (LNURLPay (Some sample_details) (Some sample_origin))) + 3]))))
          = length (filter is_wallet_call (trace (LNURLPay (Some sample_details) (Some sample_origin)))) + 3"
    by blast
  then show ?thesis
    using h by (simp add: t)
qed

subsection \<open>Errors shown to the user\<close>

text \<open>
  Claim C3. A run in which the wallet call returns a result that carries an error:
  nothing is shown to the user. The trace holds no alert at all; the window is closed.
  (A wallet call that throws, a request that fails and an invoice that does not verify
  do reach an alert.)
\<close>

theorem C3_returned_payment_error_not_shown:
  "confirm (fixed_env (Inr (sample_info None)) (Inr True) (Inr unpaid) False)
     sample_details sample_origin 5000 =
     [SetLoading True, AxiosGet ''https://pay.example/cb'' 5000,
      VerifyInvoice (sample_info None) ''[[text/plain,coffee]]'' 5000,
      UtilsCallLnurlPay sample_origin ''lnbc50n1sample'', WindowClose, SetLoading False]
   \<and> truthy (payment_error unpaid)
   \<and> \<not> list_ex is_alert
         (confirm (fixed_env (Inr (sample_info None)) (Inr True) (Inr unpaid) False)
            sample_details sample_origin 5000)"
  by (simp add: confirm_defs truthy_def fixed_env_def sample_details_def sample_info_def unpaid_def)

subsection \<open>Closing the window\<close>




subsection \<open>The amount sent to the callback\<close>

text \<open>
  Claim C5. The bounds reach the two input widgets as \<open>min\<close> and \<open>max\<close>
  attributes, and nothing else looks at them: the handler of the number field stores
  what it is given, and \<open>confirm\<close> sends the stored amount as it is. With bounds of
  1000 and 100000 millisatoshi, the user types 200 (satoshi) into the number field; the
  handler stores 200000, and the request to the callback carries 200000, above
  \<open>maxSendable\<close>. Nothing is clamped and nothing is refused.
\<close>

theorem C5_typed_amount_sent_unchecked:
  "trace (run (fixed_env (Inr (sample_info None)) (Inr True) (Inr paid) False)
            (LNURLPay (Some sample_details) (Some sample_origin))
            [ChangeNumber 200000, OnClickConfirm])
     = [SetLoading True, AxiosGet ''https://pay.example/cb'' 200000]
   \<and> \<not> (200000 \<le> maxSendable sample_details)"
  by (simp add: run_def LNURLPay_def shown_def emit_def confirm_begin_def sample_details_def)

text \<open>
  A session opened without details starts with the amount 0, and the details that arrive
  later do not change it: with a fixed amount of 1000 millisatoshi advertised, \<open>confirm\<close>
  asks the callback for an invoice of 0.
\<close>

lemma late_details_leave_amount_zero:
  "trace (run (fixed_env (Inr (sample_info None)) (Inr True) (Inr paid) False)
            (LNURLPay None None)
            [LightningData (sample_details\<lparr>maxSendable := 1000\<rparr>) sample_origin, OnClickConfirm])
     = [SetLoading True, AxiosGet ''https://pay.example/cb'' 0]"
  by (simp add: run_def LNURLPay_def shown_def emit_def confirm_begin_def sample_details_def)

subsection \<open>The success action\<close>

text \<open>
  Claim C6. After a payment that succeeded, a success action whose tag is neither
  \<open>url\<close> nor \<open>message\<close> (so \<open>aes\<close>, and every unknown tag) gives exactly one alert,
  which names the tag; the run then closes the window as usual. Nothing is thrown, and
  neither the ciphertext nor the initialisation vector nor the preimage is used.
\<close>

theorem C6_unsupported_action_alerts:
  assumes "wallet_result E d og v = Some p" and "\<not> truthy (payment_error p)"
      and "fetched_action E d v = Some a" and "tag a \<noteq> ''url''" and "tag a \<noteq> ''message''"
  shows "confirm E d og v =
           paid_prefix E d og v
           @ [Alert (''Not implemented yet. Please submit an issue to support success action: '' @ tag a),
              WindowClose, SetLoading False]"
  using assms by (simp add: confirm_wallet_returned [OF assms(1)] successAction_switch_def)

theorem C6_unsupported_action_alerts_witness:
  "confirm (fixed_env (Inr (sample_info (Some (sample_action ''aes'')))) (Inr True) (Inr paid) False)
     sample_details sample_origin 5000 =
     [SetLoading True, AxiosGet ''https://pay.example/cb'' 5000,
      VerifyInvoice (sample_info (Some (sample_action ''aes''))) ''[[text/plain,coffee]]'' 5000,
      UtilsCallLnurlPay sample_origin ''lnbc50n1sample'',
      Alert ''Not implemented yet. Please submit an issue to support success action: aes'',
      WindowClose, SetLoading False]"
proof -
  have h: "wallet_result (fixed_env (Inr (sample_info (Some (sample_action ''aes'')))) (Inr True) (Inr paid) False)
             sample_details sample_origin 5000 = Some paid"
          "\<not> truthy (payment_error paid)"
          "fetched_action (fixed_env (Inr (sample_info (Some (sample_action ''aes'')))) (Inr True) (Inr paid) False)
             sample_details 5000 = Some (sample_action ''aes'')"
          "tag (sample_action ''aes'') \<noteq> ''url''" "tag (sample_action ''aes'') \<noteq> ''message''"
    by (simp_all add: wallet_result_def fetched_action_def truthy_def fixed_env_def
          sample_info_def sample_action_def paid_def)
  show ?thesis
    using C6_unsupported_action_alerts [OF h]
    by (simp add: paid_prefix_def fixed_env_def sample_details_def sample_info_def sample_action_def)
qed




text \<open>
  Claim C9. After a payment that succeeded, a success action with tag \<open>url\<close> gives
  an alert with the description, then a confirmation question that holds the
  description and the URL; \<open>window.open\<close> is called with the URL exactly when the user
  affirms that question, and after it. If the user declines, the run holds no
  \<open>window.open\<close> at all.
\<close>

theorem C9_url_opened_only_on_affirmation:
  assumes "wallet_result E d og v = Some p" and "\<not> truthy (payment_error p)"
      and "fetched_action E d v = Some a" and "tag a = ''url''"
  shows "confirm E d og v =
           paid_prefix E d og v
           @ [Alert (js_string (description a)),
              WindowConfirm (js_string (description a) @ '' Do you want to open: ''
                               @ js_string (url a) @ ''?'')]
           @ (if window_confirm E (js_string (description a) @ '' Do you want to open: ''
                                     @ js_string (url a) @ ''?'')
              then [WindowOpen (url a)] else [])
           @ [WindowClose, SetLoading False]
       \<and> ((\<exists>u. WindowOpen u \<in> set (confirm E d og v))
            = window_confirm E (js_string (description a) @ '' Do you want to open: ''
                                  @ js_string (url a) @ ''?''))"
  using assms paid_prefix_no_open [of _ E d og v]
  by (auto simp: confirm_wallet_returned [OF assms(1)] successAction_switch_def)

theorem C9_url_opened_only_on_affirmation_witness:
  "confirm (fixed_env (Inr (sample_info (Some (sample_action ''url'')))) (Inr True) (Inr paid) False)
     sample_details sample_origin 5000 =
     [SetLoading True, AxiosGet ''https://pay.example/cb'' 5000,
      VerifyInvoice (sample_info (Some (sample_action ''url''))) ''[[text/plain,coffee]]'' 5000,
      UtilsCallLnurlPay sample_origin ''lnbc50n1sample'',
      Alert ''Receipt'', WindowConfirm ''Receipt Do you want to open: https://pay.example/r?'',
      WindowClose, SetLoading False]
   \<and> confirm (fixed_env (Inr (sample_info (Some (sample_action ''url'')))) (Inr True) (Inr paid) True)
     sample_details sample_origin 5000 =
     [SetLoading True, AxiosGet ''https://pay.example/cb'' 5000,
      VerifyInvoice (sample_info (Some (sample_action ''url''))) ''[[text/plain,coffee]]'' 5000,
      UtilsCallLnurlPay sample_origin ''lnbc50n1sample'',
      Alert ''Receipt'', WindowConfirm ''Receipt Do you want to open: https://pay.example/r?'',
      WindowOpen (Some ''https://pay.example/r''), WindowClose, SetLoading False]"
proof -
  have h: "wallet_result (fixed_env (Inr (sample_info (Some (sample_action ''url'')))) (Inr True) (Inr paid) ans)
             sample_details sample_origin 5000 = Some paid"
          "\<not> truthy (payment_error paid)"
          "fetched_action (fixed_env (Inr (sample_info (Some (sample_action ''url'')))) (Inr True) (Inr paid) ans)
             sample_details 5000 = Some (sample_action ''url'')"
          "tag (sample_action ''url'') = ''url''" for ans
    by (simp_all add: wallet_result_def fetched_action_def truthy_def fixed_env_def
          sample_info_def sample_action_def paid_def)
  show ?thesis
    using C9_url_opened_only_on_affirmation [OF h(1) [of False] h(2) h(3) [of False] h(4)]
          C9_url_opened_only_on_affirmation [OF h(1) [of True] h(2) h(3) [of True] h(4)]
    by (simp add: paid_prefix_def js_string_def fixed_env_def sample_details_def sample_info_def
          sample_action_def)
qed

subsection \<open>reject\<close>

lemma step_no_confirm:
  "no_confirm_inv s \<Longrightarrow> i \<noteq> OnClickConfirm \<Longrightarrow> no_confirm_inv (step E s i)"
  by (cases i) (auto simp: no_confirm_inv_def emit_def reject_def shown_def split: option.splits)

lemma run_no_confirm:
  "no_confirm_inv s \<Longrightarrow> OnClickConfirm \<notin> set ins \<Longrightarrow> no_confirm_inv (run E s ins)"
  unfolding run_def
  by (induction ins arbitrary: s) (auto simp: step_no_confirm)

text \<open>
  Claim C10. In a session in which \<open>confirm\<close> has not been called, whatever else has
  happened, \<open>reject\<close> adds to the trace the suppression of the link's default action and
  the report \<open>User rejected\<close>, and nothing else; the whole trace holds no request to
  the callback and no wallet call.
\<close>

theorem C10_reject_reports_only:
  assumes "OnClickConfirm \<notin> set ins"
  shows "\<not> list_ex is_fetch (trace (step E (run E (LNURLPay pd po) ins) OnClickReject))
       \<and> \<not> list_ex is_wallet_call (trace (step E (run E (LNURLPay pd po) ins) OnClickReject))
       \<and> (shown (run E (LNURLPay pd po) ins) \<noteq> None \<longrightarrow>
            trace (step E (run E (LNURLPay pd po) ins) OnClickReject)
              = trace (run E (LNURLPay pd po) ins) @ [PreventDefault, MsgError ''User rejected''])"
proof -
  have "no_confirm_inv (LNURLPay pd po)"
    by (simp add: no_confirm_inv_def LNURLPay_def)
  then have "no_confirm_inv (run E (LNURLPay pd po) ins)"
    using assms by (rule run_no_confirm)
  then have "no_confirm_inv (step E (run E (LNURLPay pd po) ins) OnClickReject)"
    by (rule step_no_confirm) simp
  then have "set (trace (step E (run E (LNURLPay pd po) ins) OnClickReject))
               \<subseteq> {PreventDefault, MsgError ''User rejected''}"
    by (simp add: no_confirm_inv_def)
  then have "\<not> list_ex is_fetch (trace (step E (run E (LNURLPay pd po) ins) OnClickReject))"
    and "\<not> list_ex is_wallet_call (trace (step E (run E (LNURLPay pd po) ins) OnClickReject))"
    by (auto simp: list_ex_iff)
  moreover have "shown (run E (LNURLPay pd po) ins) \<noteq> None \<longrightarrow>
            trace (step E (run E (LNURLPay pd po) ins) OnClickReject)
              = trace (run E (LNURLPay pd po) ins) @ [PreventDefault, MsgError ''User rejected'']"
    by (auto simp: emit_def reject_def)
  ultimately show ?thesis by blast
qed

text \<open>
  The specification's scenario C, after the user has moved the slider: the trace is
  the rejection alone.
\<close>

theorem C10_reject_reports_only_witness:
  "OnClickConfirm \<notin> set [ChangeRange 5000]
   \<and> trace (step (fixed_env (Inr (sample_info None)) (Inr True) (Inr paid) False)
              (run (fixed_env (Inr (sample_info None)) (Inr True) (Inr paid) False)
                 (LNURLPay (Some sample_details) (Some sample_origin)) [ChangeRange 5000])
              OnClickReject)
       = [PreventDefault, MsgError ''User rejected'']"
proof -
  have h: "OnClickConfirm \<notin> set [ChangeRange 5000]"
    by simp
  show ?thesis
    using h C10_reject_reports_only
        [OF h, of "fixed_env (Inr (sample_info None)) (Inr True) (Inr paid) False"
            "Some sample_details" "Some sample_origin"]
    by (simp add: run_def LNURLPay_def shown_def sample_details_def)
qed

end
